theory Spec2Isabelle
  imports Main "HOL-Library.Word" "HOL-Library.Monad_Syntax" "HOL-Library.Multiset"
begin

section \<open>Telemetry data: objects, references and the store\<close>

text \<open>
  The two built-in functions verified here, \<^verbatim>\<open>convertGaugeToSum\<close> (transform processor,
  package metrics) and \<^verbatim>\<open>DeleteKey\<close> (package ottlfuncs), work on telemetry objects
  that they only borrow: a \<^verbatim>\<open>pmetric.Metric\<close>, a \<^verbatim>\<open>pmetric.NumberDataPointSlice\<close> or a
  \<^verbatim>\<open>pcommon.Map\<close> is a small wrapper around a pointer into the record, and every
  mutation goes through that pointer. The model therefore keeps an explicit store of
  objects; a wrapper is the address of its object (or of one field of it), and an
  operation takes the store and returns the new one. An address is an index into the
  store's list for that kind of object; allocation appends, so a new address is never
  one that is already in use. A read through an address that holds no object stands
  for Go's nil dereference: the operation panics, which the model writes as \<open>None\<close>.
\<close>

type_synonym addr = nat

datatype AnyValue =
    ValueEmpty
  | ValueStr string
  | ValueInt "64 word"
  | ValueDouble "64 word"
  | ValueBool bool
  | ValueBytes "8 word list"

text \<open>
  Modelled from the spec: \<^verbatim>\<open>pcommon.Map\<close> belongs to the external pdata library and is
  not part of the sources; the spec treats it as a map-typed value from which a key
  can be removed. Its content is a slice of key/value entries, kept in order. Nothing
  in the type keeps a key from occurring more than once (a decoded record may repeat
  one); a lookup finds the first entry with the key, which is what \<open>map_of\<close> does.
\<close>

type_synonym pcommon_Map = "(string \<times> AnyValue) list"

datatype NumberValue = NumberEmpty | NumberInt "64 word" | NumberDouble "64 word"

record Exemplar =
  ex_FilteredAttributes :: pcommon_Map
  ex_Timestamp :: "64 word"
  ex_Value :: NumberValue
  ex_TraceID :: "8 word list"
  ex_SpanID :: "8 word list"

record NumberDataPoint =
  dp_Attributes :: pcommon_Map
  dp_StartTimestamp :: "64 word"
  dp_Timestamp :: "64 word"
  dp_Value :: NumberValue
  dp_Exemplars :: "Exemplar list"
  dp_Flags :: "32 word"

datatype AggregationTemporality =
    AggregationTemporalityUnspecified
  | AggregationTemporalityDelta
  | AggregationTemporalityCumulative

datatype MetricType =
    MetricTypeEmpty
  | MetricTypeGauge
  | MetricTypeSum
  | MetricTypeHistogram
  | MetricTypeExponentialHistogram
  | MetricTypeSummary

text \<open>
  The data of a metric is a tagged pointer to its container object. Only gauge and sum
  containers are inspected by the code verified here; the containers of the other
  three kinds stay behind their address.
\<close>

datatype MetricData =
    DataEmpty
  | DataGauge addr
  | DataSum addr
  | DataHistogram addr
  | DataExponentialHistogram addr
  | DataSummary addr

record Metric =
  m_Name :: string
  m_Description :: string
  m_Unit :: string
  m_Data :: MetricData

text \<open>
  A container holds a slice of pointers to its data points. The capacity of a slice
  beyond its length is not represented: a slice has exactly the elements listed.
\<close>

record Gauge =
  g_DataPoints :: "addr list"

record Sum =
  s_AggregationTemporality :: AggregationTemporality
  s_IsMonotonic :: bool
  s_DataPoints :: "addr list"

record Resource =
  r_Attributes :: pcommon_Map
  r_DroppedAttributesCount :: "32 word"

record InstrumentationScope =
  sc_Name :: string
  sc_Version :: string
  sc_Attributes :: pcommon_Map
  sc_DroppedAttributesCount :: "32 word"

record store =
  resources_h :: "Resource list"
  scopes_h :: "InstrumentationScope list"
  metric_slices_h :: "addr list list"
  metrics_h :: "Metric list"
  gauges_h :: "Gauge list"
  sums_h :: "Sum list"
  points_h :: "NumberDataPoint list"
  maps_h :: "pcommon_Map list"

text \<open>
  A \<^verbatim>\<open>NumberDataPointSlice\<close> wraps a pointer to the slice field of a gauge or of a sum; a
  \<^verbatim>\<open>pcommon.Map\<close> wraps a pointer to the attributes field of a data point, a resource
  or a scope, or to a map of its own.
\<close>

datatype slice_ref = GaugeSlice addr | SumSlice addr

datatype map_ref =
    PointAttributes addr
  | ResourceAttributes addr
  | ScopeAttributes addr
  | OwnMap addr

definition lookup :: "'a list \<Rightarrow> addr \<Rightarrow> 'a option" where
  "lookup xs a = (if a < length xs then Some (xs ! a) else None)"

fun read_slice :: "store \<Rightarrow> slice_ref \<Rightarrow> addr list option" where
  "read_slice h (GaugeSlice g) = map_option g_DataPoints (lookup (gauges_h h) g)"
| "read_slice h (SumSlice s) = map_option s_DataPoints (lookup (sums_h h) s)"

fun write_slice :: "slice_ref \<Rightarrow> addr list \<Rightarrow> store \<Rightarrow> store option" where
  "write_slice (GaugeSlice g) ps h =
     (if g < length (gauges_h h)
      then Some (h\<lparr>gauges_h := (gauges_h h)[g := (gauges_h h ! g)\<lparr>g_DataPoints := ps\<rparr>]\<rparr>)
      else None)"
| "write_slice (SumSlice s) ps h =
     (if s < length (sums_h h)
      then Some (h\<lparr>sums_h := (sums_h h)[s := (sums_h h ! s)\<lparr>s_DataPoints := ps\<rparr>]\<rparr>)
      else None)"

fun read_map :: "store \<Rightarrow> map_ref \<Rightarrow> pcommon_Map option" where
  "read_map h (PointAttributes p) = map_option dp_Attributes (lookup (points_h h) p)"
| "read_map h (ResourceAttributes r) = map_option r_Attributes (lookup (resources_h h) r)"
| "read_map h (ScopeAttributes s) = map_option sc_Attributes (lookup (scopes_h h) s)"
| "read_map h (OwnMap a) = lookup (maps_h h) a"

fun write_map :: "map_ref \<Rightarrow> pcommon_Map \<Rightarrow> store \<Rightarrow> store" where
  "write_map (PointAttributes p) kvs h =
     h\<lparr>points_h := (points_h h)[p := (points_h h ! p)\<lparr>dp_Attributes := kvs\<rparr>]\<rparr>"
| "write_map (ResourceAttributes r) kvs h =
     h\<lparr>resources_h := (resources_h h)[r := (resources_h h ! r)\<lparr>r_Attributes := kvs\<rparr>]\<rparr>"
| "write_map (ScopeAttributes s) kvs h =
     h\<lparr>scopes_h := (scopes_h h)[s := (scopes_h h ! s)\<lparr>sc_Attributes := kvs\<rparr>]\<rparr>"
| "write_map (OwnMap a) kvs h = h\<lparr>maps_h := (maps_h h)[a := kvs]\<rparr>"

section \<open>Values, errors and bound functions\<close>

text \<open>
  A Go \<^verbatim>\<open>interface{}\<close> is \<open>None\<close> when nil and otherwise one of the dynamic values
  below; a \<^verbatim>\<open>pcommon.Map\<close> value is a reference into the record. A Go \<^verbatim>\<open>error\<close> is
  \<open>None\<close> when nil.
\<close>

datatype GoValue =
    GoString string
  | GoInt64 "64 word"
  | GoFloat64 "64 word"
  | GoBool bool
  | GoBytes "8 word list"
  | GoMap map_ref

datatype error = Error string

text \<open>
  Modelled from the spec: \<^verbatim>\<open>ottl.ExprFunc\<close> and \<^verbatim>\<open>ottl.Getter\<close> are declared in package
  ottl, which is not part of the sources. Both are capabilities of the shape
  \<^verbatim>\<open>(ctx) -> (value, error)\<close>; as Go functions they run against the record, so the
  model passes the store in and out. \<open>None\<close> is a panic.
\<close>

type_synonym 'k ExprFunc = "'k \<Rightarrow> store \<Rightarrow> ((GoValue option \<times> error option) \<times> store) option"

type_synonym 'k Getter = "'k \<Rightarrow> store \<Rightarrow> ((GoValue option \<times> error option) \<times> store) option"

section \<open>The pdata operations used by the two functions\<close>

text \<open>
  Modelled from the spec: the operations of this section belong to the external pdata
  library (packages pcommon and pmetric), which is not part of the sources. The spec
  names them as the structural operations of the record boundary: removing a key from
  a map, and changing a container's shape and re-populating its children.
\<close>

text \<open>
  \<^verbatim>\<open>Remove\<close> walks the entries in order. At the first entry whose key is the given one
  it overwrites that entry with the last entry, cuts the slice by one and reports
  true; entries after it are not looked at. When no entry has the key it changes
  nothing and reports false.
\<close>

fun key_index :: "string \<Rightarrow> pcommon_Map \<Rightarrow> nat option" where
  "key_index key [] = None"
| "key_index key (kv # kvs) =
     (if fst kv = key then Some 0 else map_option Suc (key_index key kvs))"

definition Map_Remove :: "map_ref \<Rightarrow> string \<Rightarrow> store \<Rightarrow> (bool \<times> store) option" where
  "Map_Remove m key h =
     (case read_map h m of
        None \<Rightarrow> None
      | Some kvs \<Rightarrow>
          (case key_index key kvs of
             None \<Rightarrow> Some (False, h)
           | Some i \<Rightarrow> Some (True, write_map m (butlast (kvs[i := last kvs])) h)))"

definition Metric_Type :: "store \<Rightarrow> addr \<Rightarrow> MetricType option" where
  "Metric_Type h ms =
     (case lookup (metrics_h h) ms of
        None \<Rightarrow> None
      | Some orig \<Rightarrow>
          Some (case m_Data orig of
                  DataEmpty \<Rightarrow> MetricTypeEmpty
                | DataGauge _ \<Rightarrow> MetricTypeGauge
                | DataSum _ \<Rightarrow> MetricTypeSum
                | DataHistogram _ \<Rightarrow> MetricTypeHistogram
                | DataExponentialHistogram _ \<Rightarrow> MetricTypeExponentialHistogram
                | DataSummary _ \<Rightarrow> MetricTypeSummary))"

text \<open>
  \<^verbatim>\<open>Gauge()\<close> and \<^verbatim>\<open>Sum()\<close> on a metric of another kind give a wrapper around nil, whose
  every use panics; the model lets the accessor itself fail.
\<close>

definition Metric_Gauge :: "store \<Rightarrow> addr \<Rightarrow> addr option" where
  "Metric_Gauge h ms =
     (case lookup (metrics_h h) ms of
        None \<Rightarrow> None
      | Some orig \<Rightarrow> (case m_Data orig of DataGauge g \<Rightarrow> Some g | _ \<Rightarrow> None))"

definition Metric_Sum :: "store \<Rightarrow> addr \<Rightarrow> addr option" where
  "Metric_Sum h ms =
     (case lookup (metrics_h h) ms of
        None \<Rightarrow> None
      | Some orig \<Rightarrow> (case m_Data orig of DataSum s \<Rightarrow> Some s | _ \<Rightarrow> None))"

definition Gauge_DataPoints :: "store \<Rightarrow> addr \<Rightarrow> slice_ref option" where
  "Gauge_DataPoints h g = (if g < length (gauges_h h) then Some (GaugeSlice g) else None)"

definition Sum_DataPoints :: "store \<Rightarrow> addr \<Rightarrow> slice_ref option" where
  "Sum_DataPoints h s = (if s < length (sums_h h) then Some (SumSlice s) else None)"

definition empty_Sum :: Sum where
  "empty_Sum = \<lparr>s_AggregationTemporality = AggregationTemporalityUnspecified,
                s_IsMonotonic = False, s_DataPoints = []\<rparr>"

text \<open>
  \<^verbatim>\<open>SetEmptySum\<close> makes a new, empty sum and points the metric's data at it. The
  container the metric had before is not touched: it is only no longer the metric's.
\<close>

definition Metric_SetEmptySum :: "addr \<Rightarrow> store \<Rightarrow> (addr \<times> store) option" where
  "Metric_SetEmptySum ms h =
     (if ms < length (metrics_h h)
      then let val = length (sums_h h) in
           Some (val, h\<lparr>sums_h := sums_h h @ [empty_Sum],
                        metrics_h := (metrics_h h)[ms := (metrics_h h ! ms)\<lparr>m_Data := DataSum val\<rparr>]\<rparr>)
      else None)"

definition Sum_SetAggregationTemporality ::
    "addr \<Rightarrow> AggregationTemporality \<Rightarrow> store \<Rightarrow> store option" where
  "Sum_SetAggregationTemporality s v h =
     (if s < length (sums_h h)
      then Some (h\<lparr>sums_h := (sums_h h)[s := (sums_h h ! s)\<lparr>s_AggregationTemporality := v\<rparr>]\<rparr>)
      else None)"

definition Sum_SetIsMonotonic :: "addr \<Rightarrow> bool \<Rightarrow> store \<Rightarrow> store option" where
  "Sum_SetIsMonotonic s v h =
     (if s < length (sums_h h)
      then Some (h\<lparr>sums_h := (sums_h h)[s := (sums_h h ! s)\<lparr>s_IsMonotonic := v\<rparr>]\<rparr>)
      else None)"

definition empty_NumberDataPoint :: NumberDataPoint where
  "empty_NumberDataPoint =
     \<lparr>dp_Attributes = [], dp_StartTimestamp = 0, dp_Timestamp = 0,
      dp_Value = NumberEmpty, dp_Exemplars = [], dp_Flags = 0\<rparr>"

text \<open>
  Copying one data point onto another overwrites the destination field by field; a
  source without a value leaves the destination's value as it was.
\<close>

definition NumberDataPoint_CopyTo :: "addr \<Rightarrow> addr \<Rightarrow> store \<Rightarrow> store option" where
  "NumberDataPoint_CopyTo ms dest h =
     (case (lookup (points_h h) ms, lookup (points_h h) dest) of
        (Some src, Some dst) \<Rightarrow>
          Some (h\<lparr>points_h := (points_h h)[dest :=
                    dst\<lparr>dp_Attributes := dp_Attributes src,
                        dp_StartTimestamp := dp_StartTimestamp src,
                        dp_Timestamp := dp_Timestamp src,
                        dp_Value := (case dp_Value src of
                                       NumberEmpty \<Rightarrow> dp_Value dst
                                     | v \<Rightarrow> v),
                        dp_Exemplars := dp_Exemplars src,
                        dp_Flags := dp_Flags src\<rparr>]\<rparr>)
      | _ \<Rightarrow> None)"

fun copy_points :: "(addr \<times> addr) list \<Rightarrow> store \<Rightarrow> store option" where
  "copy_points [] h = Some h"
| "copy_points ((src, dst) # rest) h =
     (case NumberDataPoint_CopyTo src dst h of
        None \<Rightarrow> None
      | Some h' \<Rightarrow> copy_points rest h')"

text \<open>
  \<^verbatim>\<open>CopyTo\<close> on a slice overrides the destination with copies of the source's
  elements. When the destination has room it is cut to the source's length and its
  own elements are overwritten; otherwise as many new data points as the source has
  are allocated, filled from the source one by one, and the destination is set to
  them.
\<close>

definition NumberDataPointSlice_CopyTo :: "slice_ref \<Rightarrow> slice_ref \<Rightarrow> store \<Rightarrow> store option" where
  "NumberDataPointSlice_CopyTo es dest h =
     do {
       src \<leftarrow> read_slice h es;
       dst \<leftarrow> read_slice h dest;
       if length src \<le> length dst
       then do {
         h1 \<leftarrow> write_slice dest (take (length src) dst) h;
         copy_points (zip src (take (length src) dst)) h1
       }
       else do {
         let wrappers = [length (points_h h) ..< length (points_h h) + length src];
         let h1 = h\<lparr>points_h := points_h h @ replicate (length src) empty_NumberDataPoint\<rparr>;
         h2 \<leftarrow> copy_points (zip src wrappers) h1;
         write_slice dest wrappers h2
       }
     }"

section \<open>The data-point context\<close>

text \<open>
  Modelled from the spec: \<^verbatim>\<open>ottldatapoints.TransformContext\<close> is declared in package
  ottldatapoints, which is not part of the sources. It binds one data point to its
  parent metric, the metric slice, the instrumentation scope and the resource, all
  of them borrowed references; \<^verbatim>\<open>GetMetric\<close> gives the parent metric.
\<close>

datatype DataPoint =
    NumberPoint addr
  | HistogramPoint addr
  | ExponentialHistogramPoint addr
  | SummaryPoint addr

record TransformContext =
  dataPoint :: DataPoint
  metric :: addr
  metrics :: addr
  instrumentationScope :: addr
  resource :: addr

definition GetMetric :: "TransformContext \<Rightarrow> addr" where
  "GetMetric ctx = metric ctx"

section \<open>convertGaugeToSum\<close>

text \<open>
  The function that \<^verbatim>\<open>convertGaugeToSum\<close> returns, with the temporality it captured.
  It takes \<open>dps\<close>, the reference to the gauge's data points, before the metric is
  given its new, empty sum; \<open>dps\<close> still refers to the gauge's slice afterwards, and
  the points are copied from it into the sum.
\<close>

definition convertGaugeToSum_func ::
    "AggregationTemporality \<Rightarrow> bool \<Rightarrow> TransformContext ExprFunc" where
  "convertGaugeToSum_func aggTemp monotonic ctx h =
     (let metric = GetMetric ctx in
      case Metric_Type h metric of
        None \<Rightarrow> None
      | Some t \<Rightarrow>
          if t \<noteq> MetricTypeGauge then Some ((None, None), h)
          else do {
            g \<leftarrow> Metric_Gauge h metric;
            dps \<leftarrow> Gauge_DataPoints h g;
            (s, h1) \<leftarrow> Metric_SetEmptySum metric h;
            h2 \<leftarrow> Sum_SetAggregationTemporality s aggTemp h1;
            s' \<leftarrow> Metric_Sum h2 metric;
            h3 \<leftarrow> Sum_SetIsMonotonic s' monotonic h2;
            s'' \<leftarrow> Metric_Sum h3 metric;
            dest \<leftarrow> Sum_DataPoints h3 s'';
            h4 \<leftarrow> NumberDataPointSlice_CopyTo dps dest h3;
            Some ((None, None), h4)
          })"

definition convertGaugeToSum ::
    "string \<Rightarrow> bool \<Rightarrow> TransformContext ExprFunc option \<times> error option" where
  "convertGaugeToSum stringAggTemp monotonic =
     (if stringAggTemp = ''delta''
      then (Some (convertGaugeToSum_func AggregationTemporalityDelta monotonic), None)
      else if stringAggTemp = ''cumulative''
      then (Some (convertGaugeToSum_func AggregationTemporalityCumulative monotonic), None)
      else (None, Some (Error (''unknown aggregation temporality: '' @ stringAggTemp))))"

section \<open>DeleteKey\<close>

definition DeleteKey_func :: "'k Getter \<Rightarrow> string \<Rightarrow> 'k ExprFunc" where
  "DeleteKey_func target key ctx h =
     (case target ctx h of
        None \<Rightarrow> None
      | Some ((val, err), h1) \<Rightarrow>
          (case err of
             Some e \<Rightarrow> Some ((None, Some e), h1)
           | None \<Rightarrow>
               (case val of
                  None \<Rightarrow> Some ((None, None), h1)
                | Some (GoMap attrs) \<Rightarrow>
                    (case Map_Remove attrs key h1 of
                       None \<Rightarrow> None
                     | Some (_, h2) \<Rightarrow> Some ((None, None), h2))
                | Some _ \<Rightarrow> Some ((None, None), h1))))"

definition DeleteKey :: "'k Getter \<Rightarrow> string \<Rightarrow> 'k ExprFunc option \<times> error option" where
  "DeleteKey target key = (Some (DeleteKey_func target key), None)"

section \<open>A sample record\<close>

text \<open>
  A small batch used to run the functions on: a resource, a scope, a gauge metric
  with two data points and a delta sum metric with one.
\<close>

definition sample_point :: "64 word \<Rightarrow> NumberDataPoint" where
  "sample_point v =
     \<lparr>dp_Attributes = [(''k'', ValueStr ''v''), (''host'', ValueStr ''a'')],
      dp_StartTimestamp = 1, dp_Timestamp = 2, dp_Value = NumberInt v,
      dp_Exemplars = [], dp_Flags = 0\<rparr>"

definition sample_store :: store where
  "sample_store =
     \<lparr>resources_h = [\<lparr>r_Attributes = [(''service'', ValueStr ''web'')],
                       r_DroppedAttributesCount = 0\<rparr>],
      scopes_h = [\<lparr>sc_Name = ''scraper'', sc_Version = ''1'', sc_Attributes = [],
                    sc_DroppedAttributesCount = 0\<rparr>],
      metric_slices_h = [[0, 1]],
      metrics_h = [\<lparr>m_Name = ''load'', m_Description = ''system load'', m_Unit = ''1'',
                     m_Data = DataGauge 0\<rparr>,
                   \<lparr>m_Name = ''requests'', m_Description = ''served requests'', m_Unit = ''1'',
                     m_Data = DataSum 0\<rparr>],
      gauges_h = [\<lparr>g_DataPoints = [0, 1]\<rparr>],
      sums_h = [\<lparr>s_AggregationTemporality = AggregationTemporalityDelta,
                  s_IsMonotonic = False, s_DataPoints = [2]\<rparr>],
      points_h = [sample_point 10, sample_point 20, sample_point 30],
      maps_h = []\<rparr>"

text \<open>
  The same batch as a decoder may hand it over: the first data point carries the key
  \<open>k\<close> twice.
\<close>

definition duplicate_point :: NumberDataPoint where
  "duplicate_point =
     \<lparr>dp_Attributes = [(''k'', ValueStr ''v''), (''k'', ValueStr ''v2''), (''host'', ValueStr ''a'')],
      dp_StartTimestamp = 1, dp_Timestamp = 2, dp_Value = NumberInt 10,
      dp_Exemplars = [], dp_Flags = 0\<rparr>"

definition duplicate_store :: store where
  "duplicate_store =
     sample_store\<lparr>points_h := [duplicate_point, sample_point 20, sample_point 30]\<rparr>"

definition gauge_ctx :: TransformContext where
  "gauge_ctx = \<lparr>dataPoint = NumberPoint 0, metric = 0, metrics = 0,
                 instrumentationScope = 0, resource = 0\<rparr>"

definition sum_ctx :: TransformContext where
  "sum_ctx = \<lparr>dataPoint = NumberPoint 2, metric = 1, metrics = 0,
               instrumentationScope = 0, resource = 0\<rparr>"

text \<open>
  Sample targets for \<^verbatim>\<open>DeleteKey\<close>: the attributes of the context's data point, a
  target that resolves to a string, one that resolves to nil, and one that fails.
\<close>

definition attributes_target :: "TransformContext Getter" where
  "attributes_target ctx h =
     (case dataPoint ctx of
        NumberPoint p \<Rightarrow> Some ((Some (GoMap (PointAttributes p)), None), h)
      | _ \<Rightarrow> Some ((None, None), h))"

definition name_target :: "TransformContext Getter" where
  "name_target ctx h =
     (case lookup (metrics_h h) (GetMetric ctx) of
        None \<Rightarrow> None
      | Some orig \<Rightarrow> Some ((Some (GoString (m_Name orig)), None), h))"

definition nil_target :: "TransformContext Getter" where
  "nil_target ctx h = Some ((None, None), h)"

definition failing_target :: "TransformContext Getter" where
  "failing_target ctx h = Some ((None, Some (Error ''no such field'')), h)"

section \<open>Auxiliary facts about the store\<close>

lemma lookup_Some_iff: "lookup xs a = Some x \<longleftrightarrow> a < length xs \<and> xs ! a = x"
  by (auto simp: lookup_def)

lemma NumberDataPoint_CopyTo_fresh:
  assumes "ms < length (points_h h)" and "dest < length (points_h h)"
    and "points_h h ! dest = empty_NumberDataPoint"
  shows "NumberDataPoint_CopyTo ms dest h = Some (h\<lparr>points_h := (points_h h)[dest := points_h h ! ms]\<rparr>)"
proof -
  obtain a b c d e f where src: "points_h h ! ms = \<lparr>dp_Attributes = a, dp_StartTimestamp = b, dp_Timestamp = c, dp_Value = d, dp_Exemplars = e, dp_Flags = f\<rparr>"
    by (cases "points_h h ! ms") auto
  show ?thesis
    using assms src
    by (cases d) (simp_all add: NumberDataPoint_CopyTo_def lookup_def empty_NumberDataPoint_def)
qed

lemma copy_points_fresh:
  assumes "\<forall>p \<in> set ps. p < length pts"
    and "points_h h = pts @ done @ replicate (length ps) empty_NumberDataPoint"
  shows "copy_points (zip ps [length pts + length done ..< length pts + length done + length ps]) h
         = Some (h\<lparr>points_h := pts @ done @ map (\<lambda>p. pts ! p) ps\<rparr>)"
  using assms
proof (induction ps arbitrary: "done" h)
  case Nil
  then show ?case by simp
next
  case (Cons p ps)
  let ?d = "length pts + length done"
  let ?h1 = "h\<lparr>points_h := (points_h h)[?d := points_h h ! p]\<rparr>"
  have p: "p < length pts" using Cons.prems(1) by simp
  have src: "points_h h ! p = pts ! p"
    using p Cons.prems(2) by (simp add: nth_append)
  have dst: "points_h h ! ?d = empty_NumberDataPoint"
    using Cons.prems(2) by (simp add: nth_append)
  have step: "NumberDataPoint_CopyTo p ?d h = Some ?h1"
    using p Cons.prems(2) dst by (intro NumberDataPoint_CopyTo_fresh) simp_all
  have pts1: "points_h ?h1 = pts @ (done @ [pts ! p]) @ replicate (length ps) empty_NumberDataPoint"
    using Cons.prems(2) src by (simp add: list_update_append)
  have range: "[?d ..< ?d + length (p # ps)] = ?d # [length pts + length (done @ [pts ! p]) ..< length pts + length (done @ [pts ! p]) + length ps]"
    by (simp add: upt_rec)
  have "copy_points (zip ps [length pts + length (done @ [pts ! p]) ..< length pts + length (done @ [pts ! p]) + length ps]) ?h1
        = Some (?h1\<lparr>points_h := pts @ (done @ [pts ! p]) @ map (\<lambda>p. pts ! p) ps\<rparr>)"
    using Cons.prems(1) pts1 by (intro Cons.IH) simp_all
  then show ?case
    unfolding range using step by simp
qed


lemma convertGaugeToSum_func_gauge:
  assumes m: "lookup (metrics_h h) (GetMetric ctx) = Some orig"
    and d: "m_Data orig = DataGauge g"
    and g: "lookup (gauges_h h) g = Some gauge"
    and ps: "\<forall>p \<in> set (g_DataPoints gauge). p < length (points_h h)"
  shows "convertGaugeToSum_func aggTemp monotonic ctx h =
     Some ((None, None),
       h\<lparr>metrics_h := (metrics_h h)[GetMetric ctx := orig\<lparr>m_Data := DataSum (length (sums_h h))\<rparr>],
         sums_h := sums_h h @
           [\<lparr>s_AggregationTemporality = aggTemp, s_IsMonotonic = monotonic,
             s_DataPoints = [length (points_h h) ..< length (points_h h) + length (g_DataPoints gauge)]\<rparr>],
         points_h := points_h h @ map (\<lambda>p. points_h h ! p) (g_DataPoints gauge)\<rparr>)"
proof -
  let ?m = "GetMetric ctx"
  let ?s = "length (sums_h h)"
  let ?src = "g_DataPoints gauge"
  let ?n = "length (points_h h)"
  let ?h1 = "h\<lparr>sums_h := sums_h h @ [empty_Sum],
               metrics_h := (metrics_h h)[?m := (metrics_h h ! ?m)\<lparr>m_Data := DataSum ?s\<rparr>]\<rparr>"
  let ?h2 = "?h1\<lparr>sums_h := (sums_h ?h1)[?s := (sums_h ?h1 ! ?s)\<lparr>s_AggregationTemporality := aggTemp\<rparr>]\<rparr>"
  let ?h3 = "?h2\<lparr>sums_h := (sums_h ?h2)[?s := (sums_h ?h2 ! ?s)\<lparr>s_IsMonotonic := monotonic\<rparr>]\<rparr>"
  have mlt: "?m < length (metrics_h h)" and morig: "metrics_h h ! ?m = orig"
    using m by (simp_all add: lookup_Some_iff)
  have glt: "g < length (gauges_h h)" and gg: "gauges_h h ! g = gauge"
    using g by (simp_all add: lookup_Some_iff)
  have ty: "Metric_Type h ?m = Some MetricTypeGauge"
    using m d by (simp add: Metric_Type_def)
  have ga: "Metric_Gauge h ?m = Some g"
    using m d by (simp add: Metric_Gauge_def)
  have dps: "Gauge_DataPoints h g = Some (GaugeSlice g)"
    using glt by (simp add: Gauge_DataPoints_def)
  have ses: "Metric_SetEmptySum ?m h = Some (?s, ?h1)"
    using mlt by (simp add: Metric_SetEmptySum_def Let_def)
  have sat: "Sum_SetAggregationTemporality ?s aggTemp ?h1 = Some ?h2"
    by (simp add: Sum_SetAggregationTemporality_def)
  have sum2: "Metric_Sum ?h2 ?m = Some ?s"
    using mlt by (simp add: Metric_Sum_def lookup_def)
  have sim: "Sum_SetIsMonotonic ?s monotonic ?h2 = Some ?h3"
    by (simp add: Sum_SetIsMonotonic_def)
  have sum3: "Metric_Sum ?h3 ?m = Some ?s"
    using mlt by (simp add: Metric_Sum_def lookup_def)
  have dest: "Sum_DataPoints ?h3 ?s = Some (SumSlice ?s)"
    by (simp add: Sum_DataPoints_def)
  have rsrc: "read_slice ?h3 (GaugeSlice g) = Some ?src"
    using glt gg by (simp add: lookup_def)
  have rdst: "read_slice ?h3 (SumSlice ?s) = Some []"
    by (simp add: lookup_def empty_Sum_def)
  have sums3: "sums_h ?h3 = sums_h h @
      [\<lparr>s_AggregationTemporality = aggTemp, s_IsMonotonic = monotonic, s_DataPoints = []\<rparr>]"
    by (simp add: empty_Sum_def)
  let ?h' = "h\<lparr>metrics_h := (metrics_h h)[?m := orig\<lparr>m_Data := DataSum ?s\<rparr>],
         sums_h := sums_h h @
           [\<lparr>s_AggregationTemporality = aggTemp, s_IsMonotonic = monotonic,
             s_DataPoints = [?n ..< ?n + length ?src]\<rparr>],
         points_h := points_h h @ map (\<lambda>p. points_h h ! p) ?src\<rparr>"
  have copy: "NumberDataPointSlice_CopyTo (GaugeSlice g) (SumSlice ?s) ?h3 = Some ?h'"
  proof (cases "?src = []")
    case True
    then show ?thesis
      unfolding NumberDataPointSlice_CopyTo_def rsrc rdst
      using morig by (simp add: empty_Sum_def)
  next
    case False
    let ?ws = "[?n ..< ?n + length ?src]"
    let ?h31 = "?h3\<lparr>points_h := points_h ?h3 @ replicate (length ?src) empty_NumberDataPoint\<rparr>"
    let ?h32 = "?h31\<lparr>points_h := points_h h @ map (\<lambda>p. points_h h ! p) ?src\<rparr>"
    have "copy_points (zip ?src [?n + length ([]::NumberDataPoint list) ..< ?n + length ([]::NumberDataPoint list) + length ?src]) ?h31
          = Some (?h31\<lparr>points_h := points_h h @ [] @ map (\<lambda>p. points_h h ! p) ?src\<rparr>)"
      using ps by (intro copy_points_fresh) simp_all
    then have cp: "copy_points (zip ?src ?ws) ?h31 = Some ?h32"
      by simp
    have "NumberDataPointSlice_CopyTo (GaugeSlice g) (SumSlice ?s) ?h3
          = copy_points (zip ?src ?ws) ?h31 \<bind> write_slice (SumSlice ?s) ?ws"
      unfolding NumberDataPointSlice_CopyTo_def rsrc rdst
      using False by (simp add: Let_def)
    also have "\<dots> = write_slice (SumSlice ?s) ?ws ?h32"
      by (simp only: cp bind.bind_lunit)
    also have "\<dots> = Some ?h'"
      using morig by (simp add: empty_Sum_def)
    finally show ?thesis .
  qed
  have "convertGaugeToSum_func aggTemp monotonic ctx h =
        do {
          g \<leftarrow> Metric_Gauge h ?m;
          dps \<leftarrow> Gauge_DataPoints h g;
          (s, h1) \<leftarrow> Metric_SetEmptySum ?m h;
          h2 \<leftarrow> Sum_SetAggregationTemporality s aggTemp h1;
          s' \<leftarrow> Metric_Sum h2 ?m;
          h3 \<leftarrow> Sum_SetIsMonotonic s' monotonic h2;
          s'' \<leftarrow> Metric_Sum h3 ?m;
          dest \<leftarrow> Sum_DataPoints h3 s'';
          h4 \<leftarrow> NumberDataPointSlice_CopyTo dps dest h3;
          Some ((None, None), h4)
        }"
    unfolding convertGaugeToSum_func_def Let_def ty by simp
  also have "\<dots> = Some ((None, None), ?h')"
    by (simp only: ga dps ses sat sum2 sim sum3 dest copy bind.bind_lunit prod.case)
  finally show ?thesis .
qed

section \<open>DeleteKey: the claims\<close>

lemma read_write_map:
  "read_map h m = Some kvs \<Longrightarrow> read_map (write_map m kvs' h) m = Some kvs'"
  by (cases m) (auto simp: lookup_def split: if_splits)

lemma read_write_map_other:
  "m' \<noteq> m \<Longrightarrow> read_map (write_map m kvs' h) m' = read_map h m'"
  by (cases m; cases m') (auto simp: lookup_def)

lemma key_index_None_iff: "key_index key kvs = None \<longleftrightarrow> key \<notin> fst ` set kvs"
  by (induction kvs) auto

lemma key_index_Some:
  "key_index key kvs = Some i \<Longrightarrow>
     i < length kvs \<and> fst (kvs ! i) = key \<and> map_of kvs key = Some (snd (kvs ! i))"
proof (induction kvs arbitrary: i)
  case Nil
  then show ?case by simp
next
  case (Cons kv kvs)
  show ?case
  proof (cases "fst kv = key")
    case True
    with Cons.prems show ?thesis by (cases kv) auto
  next
    case False
    with Cons.prems obtain j where j: "key_index key kvs = Some j" and i: "i = Suc j"
      by auto
    from Cons.IH [OF j] i False show ?thesis by (cases kv) auto
  qed
qed

lemma mset_swap_remove:
  assumes "i < length kvs"
  shows "add_mset (kvs ! i) (mset (butlast (kvs[i := last kvs]))) = mset kvs"
proof -
  from assms have "kvs \<noteq> []" by auto
  then obtain xs l where kvs: "kvs = xs @ [l]"
    by (metis append_butlast_last_id)
  show ?thesis
  proof (cases "i < length xs")
    case True
    then have "butlast (kvs[i := last kvs]) = xs[i := l]"
      by (simp add: kvs list_update_append)
    moreover have "kvs ! i = xs ! i"
      using True by (simp add: kvs nth_append)
    moreover have "add_mset (xs ! i) (mset (xs[i := l])) = add_mset l (mset xs)"
      using True by (simp add: mset_update)
    ultimately show ?thesis by (simp add: kvs)
  next
    case False
    with assms have "i = length xs" by (simp add: kvs)
    then show ?thesis by (simp add: kvs)
  qed
qed

lemma DeleteKey_func_present:
  assumes "target ctx h = Some ((Some (GoMap m), None), h1)"
    and "read_map h1 m = Some kvs"
    and "key_index key kvs = Some i"
  shows "DeleteKey_func target key ctx h
           = Some ((None, None), write_map m (butlast (kvs[i := last kvs])) h1)"
  using assms by (simp add: DeleteKey_func_def Map_Remove_def)

lemma DeleteKey_func_absent:
  assumes "target ctx h = Some ((Some (GoMap m), None), h1)"
    and "read_map h1 m = Some kvs"
    and "key \<notin> fst ` set kvs"
  shows "DeleteKey_func target key ctx h = Some ((None, None), h1)"
proof -
  from assms(3) have "key_index key kvs = None"
    by (simp add: key_index_None_iff)
  with assms(1,2) show ?thesis
    by (simp add: DeleteKey_func_def Map_Remove_def)
qed

lemma removed_once_absent:
  assumes "mset kvs = add_mset (key, v) (mset kvs')"
    and "count_list (map fst kvs) key \<le> 1"
  shows "key \<notin> fst ` set kvs'"
proof -
  from assms(1) have "mset (map fst kvs) = add_mset key (mset (map fst kvs'))"
    by (metis fst_conv image_mset_add_mset mset_map)
  then have "count (mset (map fst kvs)) key = Suc (count (mset (map fst kvs')) key)"
    by simp
  then have "count_list (map fst kvs) key = Suc (count_list (map fst kvs') key)"
    by (simp only: count_mset)
  with assms(2) have "count_list (map fst kvs') key = 0"
    by simp
  then show ?thesis
    by (simp add: count_list_0_iff)
qed

lemma removed_distinct_lookup:
  assumes "mset kvs = add_mset (key, v) (mset kvs')"
    and "distinct (map fst kvs)"
    and "k \<noteq> key"
  shows "map_of kvs' k = map_of kvs k"
proof -
  from assms(1) have keys: "mset (map fst kvs) = mset (key # map fst kvs')"
    by (metis fst_conv image_mset_add_mset mset_map mset.simps(2))
  from mset_eq_imp_distinct_iff [OF keys] assms(2) have d': "distinct (map fst kvs')"
    by simp
  from assms(1) have set: "set kvs = insert (key, v) (set kvs')"
    by (metis set_mset_add_mset_insert set_mset_mset)
  have "\<And>w. map_of kvs' k = Some w \<longleftrightarrow> map_of kvs k = Some w"
    using assms(2,3) d' set by (auto simp: map_of_eq_Some_iff)
  then show ?thesis
    by (metis option.exhaust)
qed

lemma duplicate_target:
  "attributes_target gauge_ctx duplicate_store
     = Some ((Some (GoMap (PointAttributes 0)), None), duplicate_store)"
  by (simp add: attributes_target_def gauge_ctx_def)

lemma duplicate_read:
  "read_map duplicate_store (PointAttributes 0)
     = Some [(''k'', ValueStr ''v''), (''k'', ValueStr ''v2''), (''host'', ValueStr ''a'')]"
  by (simp add: duplicate_store_def duplicate_point_def lookup_def)

lemma duplicate_once:
  "DeleteKey_func attributes_target ''k'' gauge_ctx duplicate_store
     = Some ((None, None),
         write_map (PointAttributes 0)
           [(''host'', ValueStr ''a''), (''k'', ValueStr ''v2'')] duplicate_store)"
proof -
  have "key_index ''k''
          [(''k'', ValueStr ''v''), (''k'', ValueStr ''v2''), (''host'', ValueStr ''a'')] = Some 0"
    by simp
  from DeleteKey_func_present
         [where target = attributes_target and ctx = gauge_ctx and h = duplicate_store
            and ?h1.0 = duplicate_store and m = "PointAttributes 0" and key = "''k''"
            and i = 0, OF duplicate_target duplicate_read this]
  show ?thesis by simp
qed

text \<open>
  Claim C2, amended. When the target resolves without error to a map that has an entry
  with the key, the function built by \<^verbatim>\<open>DeleteKey\<close> returns nil and a nil error, and
  the only change to the store that the target left is that this map has lost one
  entry: the first one with the key, which is the one a lookup finds. All other
  entries of the map are kept (their order may change), and every other map reads as
  before. When the key occurs once in the map it is absent afterwards; when the keys
  of the map are distinct, every other key keeps its value.
\<close>

theorem DeleteKey_removes_first_entry:
  assumes "target ctx h = Some ((Some (GoMap m), None), h1)"
    and "read_map h1 m = Some kvs"
    and "key \<in> fst ` set kvs"
  shows "\<exists>f h' kvs' v.
           DeleteKey target key = (Some f, None) \<and>
           f ctx h = Some ((None, None), h') \<and>
           h' = write_map m kvs' h1 \<and>
           read_map h' m = Some kvs' \<and>
           map_of kvs key = Some v \<and>
           mset kvs = add_mset (key, v) (mset kvs') \<and>
           (\<forall>m'. m' \<noteq> m \<longrightarrow> read_map h' m' = read_map h1 m') \<and>
           (count_list (map fst kvs) key = 1 \<longrightarrow> key \<notin> fst ` set kvs') \<and>
           (distinct (map fst kvs) \<longrightarrow> (\<forall>k. k \<noteq> key \<longrightarrow> map_of kvs' k = map_of kvs k))"
proof -
  from assms(3) obtain i where i: "key_index key kvs = Some i"
    using key_index_None_iff [of key kvs] by (cases "key_index key kvs") auto
  let ?kvs' = "butlast (kvs[i := last kvs])"
  let ?v = "snd (kvs ! i)"
  let ?h' = "write_map m ?kvs' h1"
  from key_index_Some [OF i] have ilt: "i < length kvs" and entry: "kvs ! i = (key, ?v)"
    and first: "map_of kvs key = Some ?v"
    by (auto simp: prod_eq_iff)
  have bind: "DeleteKey target key = (Some (DeleteKey_func target key), None)"
    by (simp add: DeleteKey_def)
  have run: "DeleteKey_func target key ctx h = Some ((None, None), ?h')"
    using assms(1,2) i by (rule DeleteKey_func_present)
  have rd: "read_map ?h' m = Some ?kvs'"
    using assms(2) by (rule read_write_map)
  have ms: "mset kvs = add_mset (key, ?v) (mset ?kvs')"
    using mset_swap_remove [OF ilt] entry by simp
  have others: "\<forall>m'. m' \<noteq> m \<longrightarrow> read_map ?h' m' = read_map h1 m'"
    by (simp add: read_write_map_other)
  have once: "count_list (map fst kvs) key = 1 \<longrightarrow> key \<notin> fst ` set ?kvs'"
    using removed_once_absent [OF ms] by simp
  have look: "distinct (map fst kvs) \<longrightarrow> (\<forall>k. k \<noteq> key \<longrightarrow> map_of ?kvs' k = map_of kvs k)"
    using removed_distinct_lookup [OF ms] by blast
  show ?thesis
    using bind run rd first ms others once look by blast
qed

theorem DeleteKey_removes_first_entry_witness:
  "attributes_target gauge_ctx sample_store
     = Some ((Some (GoMap (PointAttributes 0)), None), sample_store) \<and>
   read_map sample_store (PointAttributes 0)
     = Some [(''k'', ValueStr ''v''), (''host'', ValueStr ''a'')] \<and>
   ''k'' \<in> fst ` set [(''k'', ValueStr ''v''), (''host'', ValueStr ''a'')] \<and>
   count_list (map fst [(''k'', ValueStr ''v''), (''host'', ValueStr ''a'')]) ''k'' = 1 \<and>
   distinct (map fst [(''k'', ValueStr ''v''), (''host'', ValueStr ''a'')]) \<and>
   (\<exists>f h' kvs' v.
      DeleteKey attributes_target ''k'' = (Some f, None) \<and>
      f gauge_ctx sample_store = Some ((None, None), h') \<and>
      h' = write_map (PointAttributes 0) kvs' sample_store \<and>
      read_map h' (PointAttributes 0) = Some kvs' \<and>
      map_of [(''k'', ValueStr ''v''), (''host'', ValueStr ''a'')] ''k'' = Some v \<and>
      mset [(''k'', ValueStr ''v''), (''host'', ValueStr ''a'')] = add_mset (''k'', v) (mset kvs') \<and>
      (\<forall>m'. m' \<noteq> PointAttributes 0 \<longrightarrow> read_map h' m' = read_map sample_store m') \<and>
      ''k'' \<notin> fst ` set kvs' \<and>
      (\<forall>k. k \<noteq> ''k'' \<longrightarrow>
         map_of kvs' k = map_of [(''k'', ValueStr ''v''), (''host'', ValueStr ''a'')] k))"
proof -
  let ?kvs = "[(''k'', ValueStr ''v''), (''host'', ValueStr ''a'')]"
  have a: "attributes_target gauge_ctx sample_store
     = Some ((Some (GoMap (PointAttributes 0)), None), sample_store)"
    by (simp add: attributes_target_def gauge_ctx_def)
  have b: "read_map sample_store (PointAttributes 0) = Some ?kvs"
    by (simp add: sample_store_def sample_point_def lookup_def)
  have c: "''k'' \<in> fst ` set ?kvs"
    by simp
  have d: "count_list (map fst ?kvs) ''k'' = 1"
    by simp
  have e: "distinct (map fst ?kvs)"
    by simp
  note r = DeleteKey_removes_first_entry
        [where target = attributes_target and ctx = gauge_ctx and h = sample_store
           and m = "PointAttributes 0" and ?h1.0 = sample_store and key = "''k''"
           and kvs = ?kvs, OF a b c]
  from r d e have
    "\<exists>f h' kvs' v.
      DeleteKey attributes_target ''k'' = (Some f, None) \<and>
      f gauge_ctx sample_store = Some ((None, None), h') \<and>
      h' = write_map (PointAttributes 0) kvs' sample_store \<and>
      read_map h' (PointAttributes 0) = Some kvs' \<and>
      map_of ?kvs ''k'' = Some v \<and>
      mset ?kvs = add_mset (''k'', v) (mset kvs') \<and>
      (\<forall>m'. m' \<noteq> PointAttributes 0 \<longrightarrow> read_map h' m' = read_map sample_store m') \<and>
      ''k'' \<notin> fst ` set kvs' \<and>
      (\<forall>k. k \<noteq> ''k'' \<longrightarrow> map_of kvs' k = map_of ?kvs k)"
    by (elim exE conjE) (intro exI conjI, assumption+, (drule (1) mp, assumption)+)
  with a b c d e show ?thesis
    by (intro conjI)
qed

text \<open>
  On a map that holds the key twice, the key is still in the map after the call: only
  the first of the two entries is removed.
\<close>

theorem DeleteKey_duplicate_key_counterexample:
  "attributes_target gauge_ctx duplicate_store
     = Some ((Some (GoMap (PointAttributes 0)), None), duplicate_store) \<and>
   read_map duplicate_store (PointAttributes 0)
     = Some [(''k'', ValueStr ''v''), (''k'', ValueStr ''v2''), (''host'', ValueStr ''a'')] \<and>
   DeleteKey attributes_target ''k'' = (Some (DeleteKey_func attributes_target ''k''), None) \<and>
   DeleteKey_func attributes_target ''k'' gauge_ctx duplicate_store
     = Some ((None, None),
         write_map (PointAttributes 0)
           [(''host'', ValueStr ''a''), (''k'', ValueStr ''v2'')] duplicate_store) \<and>
   read_map (write_map (PointAttributes 0)
               [(''host'', ValueStr ''a''), (''k'', ValueStr ''v2'')] duplicate_store)
       (PointAttributes 0)
     = Some [(''host'', ValueStr ''a''), (''k'', ValueStr ''v2'')] \<and>
   map_of [(''host'', ValueStr ''a''), (''k'', ValueStr ''v2'')] ''k'' = Some (ValueStr ''v2'')"
proof -
  have bind: "DeleteKey attributes_target ''k''
                = (Some (DeleteKey_func attributes_target ''k''), None)"
    by (simp add: DeleteKey_def)
  have rd: "read_map (write_map (PointAttributes 0)
               [(''host'', ValueStr ''a''), (''k'', ValueStr ''v2'')] duplicate_store)
             (PointAttributes 0)
           = Some [(''host'', ValueStr ''a''), (''k'', ValueStr ''v2'')]"
    using duplicate_read by (rule read_write_map)
  have still: "map_of [(''host'', ValueStr ''a''), (''k'', ValueStr ''v2'')] ''k''
                 = Some (ValueStr ''v2'')"
    by simp
  show ?thesis
    using duplicate_target duplicate_read bind duplicate_once rd still by (intro conjI)
qed

text \<open>
  Claim C5. When the target's \<^verbatim>\<open>Get\<close> returns an error, the function built by
  \<^verbatim>\<open>DeleteKey\<close> returns nil together with that same error, and the store is the one
  \<^verbatim>\<open>Get\<close> left: the function itself mutates nothing.
\<close>

theorem DeleteKey_propagates_target_error:
  assumes "target ctx h = Some ((val, Some e), h1)"
  shows "\<exists>f. DeleteKey target key = (Some f, None) \<and>
              f ctx h = Some ((None, Some e), h1)"
  using assms by (simp add: DeleteKey_def DeleteKey_func_def)

theorem DeleteKey_propagates_target_error_witness:
  "failing_target gauge_ctx sample_store
     = Some ((None, Some (Error ''no such field'')), sample_store) \<and>
   (\<exists>f. DeleteKey failing_target ''k'' = (Some f, None) \<and>
        f gauge_ctx sample_store = Some ((None, Some (Error ''no such field'')), sample_store))"
proof -
  have a: "failing_target gauge_ctx sample_store
     = Some ((None, Some (Error ''no such field'')), sample_store)"
    by (simp add: failing_target_def)
  show ?thesis
    using a
      DeleteKey_propagates_target_error
        [where target = failing_target and ctx = gauge_ctx and h = sample_store
           and val = None and e = "Error ''no such field''" and ?h1.0 = sample_store
           and key = "''k''"]
    by blast
qed

text \<open>
  Claim C6. When the target resolves without error to a value that is not nil and not
  a map, the function built by \<^verbatim>\<open>DeleteKey\<close> returns nil and a nil error, and the store
  is the one \<^verbatim>\<open>Get\<close> left.
\<close>

theorem DeleteKey_not_a_map:
  assumes "target ctx h = Some ((Some v, None), h1)"
    and "\<forall>m. v \<noteq> GoMap m"
  shows "\<exists>f. DeleteKey target key = (Some f, None) \<and>
              f ctx h = Some ((None, None), h1)"
  using assms by (cases v) (simp_all add: DeleteKey_def DeleteKey_func_def)

theorem DeleteKey_not_a_map_witness:
  "name_target gauge_ctx sample_store = Some ((Some (GoString ''load''), None), sample_store) \<and>
   (\<forall>m. GoString ''load'' \<noteq> GoMap m) \<and>
   (\<exists>f. DeleteKey name_target ''k'' = (Some f, None) \<and>
        f gauge_ctx sample_store = Some ((None, None), sample_store))"
proof -
  have a: "name_target gauge_ctx sample_store
     = Some ((Some (GoString ''load''), None), sample_store)"
    by (simp add: name_target_def gauge_ctx_def GetMetric_def sample_store_def lookup_def)
  have b: "\<forall>m. GoString ''load'' \<noteq> GoMap m"
    by simp
  show ?thesis
    using a b
      DeleteKey_not_a_map
        [where target = name_target and ctx = gauge_ctx and h = sample_store
           and v = "GoString ''load''" and ?h1.0 = sample_store and key = "''k''"]
    by blast
qed

text \<open>
  Claim C9. When the target resolves to nil with a nil error, the function built by
  \<^verbatim>\<open>DeleteKey\<close> returns nil and a nil error without removing anything: the store is
  the one \<^verbatim>\<open>Get\<close> left.
\<close>

theorem DeleteKey_nil_target:
  assumes "target ctx h = Some ((None, None), h1)"
  shows "\<exists>f. DeleteKey target key = (Some f, None) \<and>
              f ctx h = Some ((None, None), h1)"
  using assms by (simp add: DeleteKey_def DeleteKey_func_def)

theorem DeleteKey_nil_target_witness:
  "nil_target gauge_ctx sample_store = Some ((None, None), sample_store) \<and>
   (\<exists>f. DeleteKey nil_target ''k'' = (Some f, None) \<and>
        f gauge_ctx sample_store = Some ((None, None), sample_store))"
proof -
  have a: "nil_target gauge_ctx sample_store = Some ((None, None), sample_store)"
    by (simp add: nil_target_def)
  show ?thesis
    using a
      DeleteKey_nil_target
        [where target = nil_target and ctx = gauge_ctx and h = sample_store
           and ?h1.0 = sample_store and key = "''k''"]
    by blast
qed

text \<open>
  Claim C10. For every target and every key, \<^verbatim>\<open>DeleteKey\<close> returns a function and a
  nil error: binding it cannot fail.
\<close>

theorem DeleteKey_always_binds:
  "\<exists>f. DeleteKey target key = (Some f, None)"
  by (simp add: DeleteKey_def)

section \<open>convertGaugeToSum: the claims\<close>

lemma convertGaugeToSum_SomeD:
  assumes "convertGaugeToSum stringAggTemp monotonic = (Some f, e)"
  shows "e = None \<and>
         (stringAggTemp = ''delta'' \<and> f = convertGaugeToSum_func AggregationTemporalityDelta monotonic \<or>
          stringAggTemp = ''cumulative'' \<and> f = convertGaugeToSum_func AggregationTemporalityCumulative monotonic)"
  using assms by (auto simp: convertGaugeToSum_def split: if_splits)

lemma convertGaugeToSum_func_not_gauge:
  assumes "Metric_Type h (GetMetric ctx) = Some t" and "t \<noteq> MetricTypeGauge"
  shows "convertGaugeToSum_func aggTemp monotonic ctx h = Some ((None, None), h)"
  using assms by (simp add: convertGaugeToSum_func_def)

lemma NumberDataPoint_CopyTo_metrics:
  "NumberDataPoint_CopyTo s d h = Some h' \<Longrightarrow> metrics_h h' = metrics_h h"
  by (auto simp: NumberDataPoint_CopyTo_def split: option.splits)

lemma copy_points_metrics:
  "copy_points ps h = Some h' \<Longrightarrow> metrics_h h' = metrics_h h"
proof (induction ps arbitrary: h)
  case Nil
  then show ?case by simp
next
  case (Cons a ps)
  obtain s d where a: "a = (s, d)" by (cases a)
  from Cons.prems a obtain h1 where
    h1: "NumberDataPoint_CopyTo s d h = Some h1" and rest: "copy_points ps h1 = Some h'"
    by (auto split: option.splits)
  from Cons.IH [OF rest] NumberDataPoint_CopyTo_metrics [OF h1] show ?case by simp
qed

lemma write_slice_metrics:
  "write_slice r ps h = Some h' \<Longrightarrow> metrics_h h' = metrics_h h"
  by (cases r) (auto split: if_splits)

lemma NumberDataPointSlice_CopyTo_metrics:
  assumes "NumberDataPointSlice_CopyTo es dest h = Some h'"
  shows "metrics_h h' = metrics_h h"
proof -
  from assms obtain src dst where
    src: "read_slice h es = Some src" and dst: "read_slice h dest = Some dst"
    by (auto simp: NumberDataPointSlice_CopyTo_def bind_eq_Some_conv)
  show ?thesis
  proof (cases "length src \<le> length dst")
    case True
    with assms src dst obtain h1 where
      "write_slice dest (take (length src) dst) h = Some h1"
      "copy_points (zip src (take (length src) dst)) h1 = Some h'"
      by (auto simp: NumberDataPointSlice_CopyTo_def bind_eq_Some_conv)
    then show ?thesis
      using write_slice_metrics copy_points_metrics by metis
  next
    case False
    with assms src dst obtain h2 where
      "copy_points (zip src [length (points_h h) ..< length (points_h h) + length src])
         (h\<lparr>points_h := points_h h @ replicate (length src) empty_NumberDataPoint\<rparr>) = Some h2"
      "write_slice dest [length (points_h h) ..< length (points_h h) + length src] h2 = Some h'"
      by (auto simp: NumberDataPointSlice_CopyTo_def Let_def bind_eq_Some_conv)
    then show ?thesis
      using write_slice_metrics [of dest _ h2 h'] copy_points_metrics [of _ _ h2] by simp
  qed
qed

lemma convertGaugeToSum_func_result:
  assumes "convertGaugeToSum_func aggTemp monotonic ctx h = Some (r, h1)"
  shows "r = (None, None) \<and>
         (h1 = h \<and> Metric_Type h (GetMetric ctx) \<noteq> Some MetricTypeGauge
            \<and> Metric_Type h (GetMetric ctx) \<noteq> None \<or>
          Metric_Type h1 (GetMetric ctx) = Some MetricTypeSum)"
proof -
  let ?m = "GetMetric ctx"
  from assms obtain t where t: "Metric_Type h ?m = Some t"
    by (auto simp: convertGaugeToSum_func_def Let_def split: option.splits)
  show ?thesis
  proof (cases "t = MetricTypeGauge")
    case False
    with assms t show ?thesis
      by (simp add: convertGaugeToSum_func_def)
  next
    case True
    from assms t True obtain g dps s ha hb s' hc s'' dest hd where
      ses: "Metric_SetEmptySum ?m h = Some (s, ha)"
      and sat: "Sum_SetAggregationTemporality s aggTemp ha = Some hb"
      and sim: "Sum_SetIsMonotonic s' monotonic hb = Some hc"
      and cp: "NumberDataPointSlice_CopyTo dps dest hc = Some hd"
      and res: "r = (None, None)" "h1 = hd"
      by (auto simp: convertGaugeToSum_func_def Let_def bind_eq_Some_conv)
    from ses have mlt: "?m < length (metrics_h h)"
      and ma: "metrics_h ha = (metrics_h h)[?m := (metrics_h h ! ?m)\<lparr>m_Data := DataSum s\<rparr>]"
      by (auto simp: Metric_SetEmptySum_def Let_def split: if_splits)
    from sat have "metrics_h hb = metrics_h ha"
      by (auto simp: Sum_SetAggregationTemporality_def split: if_splits)
    moreover from sim have "metrics_h hc = metrics_h hb"
      by (auto simp: Sum_SetIsMonotonic_def split: if_splits)
    moreover from cp have "metrics_h hd = metrics_h hc"
      by (rule NumberDataPointSlice_CopyTo_metrics)
    ultimately have "metrics_h h1 = (metrics_h h)[?m := (metrics_h h ! ?m)\<lparr>m_Data := DataSum s\<rparr>]"
      using ma res by simp
    with mlt have "Metric_Type h1 ?m = Some MetricTypeSum"
      by (simp add: Metric_Type_def lookup_def)
    with res show ?thesis by simp
  qed
qed


lemma map_lookup_appended:
  "map (lookup (pts @ xs)) [length pts ..< length pts + length xs] = map Some xs"
  by (rule nth_equalityI) (auto simp: lookup_def nth_append)

lemma sample_metric:
  "lookup (metrics_h sample_store) (GetMetric gauge_ctx)
     = Some \<lparr>m_Name = ''load'', m_Description = ''system load'', m_Unit = ''1'',
             m_Data = DataGauge 0\<rparr>"
  by (simp add: sample_store_def gauge_ctx_def GetMetric_def lookup_def)

lemma sample_gauge:
  "lookup (gauges_h sample_store) 0 = Some \<lparr>g_DataPoints = [0, 1]\<rparr>"
  by (simp add: sample_store_def lookup_def)

lemma sample_points:
  "\<forall>p \<in> set (g_DataPoints \<lparr>g_DataPoints = [0, 1]\<rparr>). p < length (points_h sample_store)"
  by (simp add: sample_store_def)

text \<open>
  Claim C1. On a gauge metric with N data points, the function built by
  \<^verbatim>\<open>convertGaugeToSum("cumulative", true)\<close> returns nil and a nil error and leaves the
  metric a sum that is monotonic and cumulative and has exactly N data points, equal
  in content and order to the gauge's. The reference to the gauge's points is taken
  before the metric gets its empty sum, so nothing is lost: the sum's points are new
  objects, none of them one of the gauge's, and the gauge's slice and points are
  still what they were.
\<close>

theorem convertGaugeToSum_cumulative_monotonic:
  assumes "lookup (metrics_h h) (GetMetric ctx) = Some orig"
    and "m_Data orig = DataGauge g"
    and "lookup (gauges_h h) g = Some gauge"
    and "\<forall>p \<in> set (g_DataPoints gauge). p < length (points_h h)"
  shows "\<exists>f h' s sum.
           convertGaugeToSum ''cumulative'' True = (Some f, None) \<and>
           f ctx h = Some ((None, None), h') \<and>
           Metric_Type h' (GetMetric ctx) = Some MetricTypeSum \<and>
           Metric_Sum h' (GetMetric ctx) = Some s \<and>
           lookup (sums_h h') s = Some sum \<and>
           s_IsMonotonic sum = True \<and>
           s_AggregationTemporality sum = AggregationTemporalityCumulative \<and>
           length (s_DataPoints sum) = length (g_DataPoints gauge) \<and>
           map (lookup (points_h h')) (s_DataPoints sum)
             = map (\<lambda>p. Some (points_h h ! p)) (g_DataPoints gauge) \<and>
           set (s_DataPoints sum) \<inter> set (g_DataPoints gauge) = {} \<and>
           lookup (gauges_h h') g = Some gauge \<and>
           map (lookup (points_h h')) (g_DataPoints gauge)
             = map (lookup (points_h h)) (g_DataPoints gauge)"
proof -
  let ?m = "GetMetric ctx"
  let ?ps = "g_DataPoints gauge"
  let ?n = "length (points_h h)"
  let ?new = "map (\<lambda>p. points_h h ! p) ?ps"
  let ?sum = "\<lparr>s_AggregationTemporality = AggregationTemporalityCumulative, s_IsMonotonic = True,
               s_DataPoints = [?n ..< ?n + length ?ps]\<rparr>"
  let ?h' = "h\<lparr>metrics_h := (metrics_h h)[?m := orig\<lparr>m_Data := DataSum (length (sums_h h))\<rparr>],
               sums_h := sums_h h @ [?sum],
               points_h := points_h h @ ?new\<rparr>"
  have mlt: "?m < length (metrics_h h)"
    using assms(1) by (simp add: lookup_Some_iff)
  have bind: "convertGaugeToSum ''cumulative'' True
                = (Some (convertGaugeToSum_func AggregationTemporalityCumulative True), None)"
    by (simp add: convertGaugeToSum_def)
  have run: "convertGaugeToSum_func AggregationTemporalityCumulative True ctx h
               = Some ((None, None), ?h')"
    using assms by (rule convertGaugeToSum_func_gauge)
  have ty: "Metric_Type ?h' ?m = Some MetricTypeSum"
    using mlt by (simp add: Metric_Type_def lookup_def)
  have ms: "Metric_Sum ?h' ?m = Some (length (sums_h h))"
    using mlt by (simp add: Metric_Sum_def lookup_def)
  have su: "lookup (sums_h ?h') (length (sums_h h)) = Some ?sum"
    by (simp add: lookup_def)
  have "map (lookup (points_h h @ ?new)) [?n ..< ?n + length ?new] = map Some ?new"
    by (rule map_lookup_appended)
  then have pts: "map (lookup (points_h ?h')) (s_DataPoints ?sum)
                    = map (\<lambda>p. Some (points_h h ! p)) ?ps"
    by (simp add: comp_def)
  have disj: "set (s_DataPoints ?sum) \<inter> set ?ps = {}"
    using assms(4) by auto
  have ga: "lookup (gauges_h ?h') g = Some gauge"
    using assms(3) by simp
  have old: "map (lookup (points_h ?h')) ?ps = map (lookup (points_h h)) ?ps"
    using assms(4) by (auto simp: lookup_def nth_append)
  have len: "length (s_DataPoints ?sum) = length ?ps"
    by simp
  have mono: "s_IsMonotonic ?sum = True"
    and temp: "s_AggregationTemporality ?sum = AggregationTemporalityCumulative"
    by simp_all
  show ?thesis
    using bind run ty ms su mono temp len pts disj ga old by blast
qed

theorem convertGaugeToSum_cumulative_monotonic_witness:
  "lookup (metrics_h sample_store) (GetMetric gauge_ctx)
     = Some \<lparr>m_Name = ''load'', m_Description = ''system load'', m_Unit = ''1'',
             m_Data = DataGauge 0\<rparr> \<and>
   lookup (gauges_h sample_store) 0 = Some \<lparr>g_DataPoints = [0, 1]\<rparr> \<and>
   0 < length (points_h sample_store) \<and> 1 < length (points_h sample_store) \<and>
   (\<exists>f h' s sum.
      convertGaugeToSum ''cumulative'' True = (Some f, None) \<and>
      f gauge_ctx sample_store = Some ((None, None), h') \<and>
      Metric_Type h' (GetMetric gauge_ctx) = Some MetricTypeSum \<and>
      Metric_Sum h' (GetMetric gauge_ctx) = Some s \<and>
      lookup (sums_h h') s = Some sum \<and>
      s_IsMonotonic sum = True \<and>
      s_AggregationTemporality sum = AggregationTemporalityCumulative \<and>
      length (s_DataPoints sum) = 2 \<and>
      map (lookup (points_h h')) (s_DataPoints sum)
        = [Some (sample_point 10), Some (sample_point 20)] \<and>
      set (s_DataPoints sum) \<inter> set [0, 1] = {} \<and>
      lookup (gauges_h h') 0 = Some \<lparr>g_DataPoints = [0, 1]\<rparr> \<and>
      map (lookup (points_h h')) [0, 1] = map (lookup (points_h sample_store)) [0, 1])"
proof -
  have pts: "map (\<lambda>p. Some (points_h sample_store ! p)) [0, 1]
               = [Some (sample_point 10), Some (sample_point 20)]"
    by (simp add: sample_store_def)
  show ?thesis
    using sample_metric sample_gauge sample_points pts
      convertGaugeToSum_cumulative_monotonic
        [where h = sample_store and ctx = gauge_ctx and g = 0
           and gauge = "\<lparr>g_DataPoints = [0, 1]\<rparr>"
           and orig = "\<lparr>m_Name = ''load'', m_Description = ''system load'', m_Unit = ''1'',
                         m_Data = DataGauge 0\<rparr>"]
    by (simp add: numeral_2_eq_2)
qed

text \<open>
  Claim C3. For a temporality string other than "delta" and "cumulative",
  \<^verbatim>\<open>convertGaugeToSum\<close> returns no function and the error
  "unknown aggregation temporality: ..."; for "delta" and for "cumulative" it returns
  a function and a nil error.
\<close>

theorem convertGaugeToSum_temporality_checked_at_bind:
  "(stringAggTemp \<noteq> ''delta'' \<and> stringAggTemp \<noteq> ''cumulative'' \<longrightarrow>
      convertGaugeToSum stringAggTemp monotonic
        = (None, Some (Error (''unknown aggregation temporality: '' @ stringAggTemp)))) \<and>
   (stringAggTemp = ''delta'' \<or> stringAggTemp = ''cumulative'' \<longrightarrow>
      (\<exists>f. convertGaugeToSum stringAggTemp monotonic = (Some f, None)))"
  by (auto simp: convertGaugeToSum_def)

theorem convertGaugeToSum_temporality_checked_at_bind_witness:
  "''instant'' \<noteq> ''delta'' \<and> ''instant'' \<noteq> ''cumulative'' \<and>
   convertGaugeToSum ''instant'' True
     = (None, Some (Error ''unknown aggregation temporality: instant'')) \<and>
   (\<exists>f. convertGaugeToSum ''delta'' False = (Some f, None)) \<and>
   (\<exists>f. convertGaugeToSum ''cumulative'' True = (Some f, None))"
  using convertGaugeToSum_temporality_checked_at_bind [of "''instant''" True]
    convertGaugeToSum_temporality_checked_at_bind [of "''delta''" False]
    convertGaugeToSum_temporality_checked_at_bind [of "''cumulative''" True]
  by simp

text \<open>
  Claim C4. On a metric that is not a gauge, the function built by
  \<^verbatim>\<open>convertGaugeToSum\<close> returns nil and a nil error and the store is unchanged; the
  result is neither a value nor an error.
\<close>

theorem convertGaugeToSum_skips_other_metrics:
  assumes "convertGaugeToSum stringAggTemp monotonic = (Some f, e)"
    and "Metric_Type h (GetMetric ctx) = Some t"
    and "t \<noteq> MetricTypeGauge"
  shows "f ctx h = Some ((None, None), h) \<and>
         (\<forall>v er h'. f ctx h \<noteq> Some ((Some v, er), h')) \<and>
         (\<forall>v er h'. f ctx h \<noteq> Some ((v, Some er), h'))"
proof -
  from convertGaugeToSum_SomeD [OF assms(1)] obtain a where
    "f = convertGaugeToSum_func a monotonic" by blast
  then have "f ctx h = Some ((None, None), h)"
    using assms(2,3) by (simp add: convertGaugeToSum_func_not_gauge)
  then show ?thesis by simp
qed

theorem convertGaugeToSum_skips_other_metrics_witness:
  "convertGaugeToSum ''delta'' False
     = (Some (convertGaugeToSum_func AggregationTemporalityDelta False), None) \<and>
   Metric_Type sample_store (GetMetric sum_ctx) = Some MetricTypeSum \<and>
   MetricTypeSum \<noteq> MetricTypeGauge \<and>
   convertGaugeToSum_func AggregationTemporalityDelta False sum_ctx sample_store
     = Some ((None, None), sample_store)"
proof -
  have a: "convertGaugeToSum ''delta'' False
     = (Some (convertGaugeToSum_func AggregationTemporalityDelta False), None)"
    by (simp add: convertGaugeToSum_def)
  have b: "Metric_Type sample_store (GetMetric sum_ctx) = Some MetricTypeSum"
    by (simp add: Metric_Type_def sample_store_def sum_ctx_def GetMetric_def lookup_def)
  have c: "MetricTypeSum \<noteq> MetricTypeGauge" by simp
  show ?thesis
    using a b c convertGaugeToSum_skips_other_metrics [OF a b c] by simp
qed

section \<open>Running a function twice\<close>

lemma DeleteKey_func_twice:
  assumes "target c s = Some ((Some (GoMap m), None), s1)"
    and "read_map s1 m = Some kvs"
    and "count_list (map fst kvs) key \<le> 1"
    and "DeleteKey_func target key c s = Some (r', s2)"
    and "target c s2 = Some ((Some (GoMap m), None), s2)"
  shows "DeleteKey_func target key c s2 = Some ((None, None), s2)"
proof (cases "key_index key kvs")
  case None
  then have absent: "key \<notin> fst ` set kvs"
    by (simp add: key_index_None_iff)
  with assms(1,2) have "DeleteKey_func target key c s = Some ((None, None), s1)"
    by (rule DeleteKey_func_absent)
  with assms(4) have "s2 = s1" by simp
  with assms(2,5) absent show ?thesis
    by (simp add: DeleteKey_func_absent)
next
  case (Some i)
  let ?kvs' = "butlast (kvs[i := last kvs])"
  from key_index_Some [OF Some] have ilt: "i < length kvs"
    and entry: "kvs ! i = (key, snd (kvs ! i))"
    by (auto simp: prod_eq_iff)
  have "DeleteKey_func target key c s = Some ((None, None), write_map m ?kvs' s1)"
    using assms(1,2) Some by (rule DeleteKey_func_present)
  with assms(4) have s2: "s2 = write_map m ?kvs' s1" by simp
  have rd: "read_map s2 m = Some ?kvs'"
    unfolding s2 using assms(2) by (rule read_write_map)
  have "mset kvs = add_mset (key, snd (kvs ! i)) (mset ?kvs')"
    using mset_swap_remove [OF ilt] entry by simp
  then have "key \<notin> fst ` set ?kvs'"
    using assms(3) by (rule removed_once_absent)
  with assms(5) rd show ?thesis
    by (rule DeleteKey_func_absent)
qed

text \<open>
  Claim C7, amended. Running a built-in function again on a record in its target state
  changes nothing and gives no error. For \<^verbatim>\<open>convertGaugeToSum\<close>: after any run that
  returned, a second run returns nil and a nil error and leaves the store as the first
  run left it; so does a run on a metric that is already a sum. For \<^verbatim>\<open>DeleteKey\<close>:
  on a map that does not contain the key the store stays as the target left it; and
  when the key occurs at most once in the map and the target resolves to the same map
  again, without changing the store, a second run leaves the store as the first run
  left it.
\<close>

theorem built_ins_idempotent:
  "(convertGaugeToSum stringAggTemp monotonic = (Some f, e) \<and> f ctx h = Some (r, h1) \<longrightarrow>
      f ctx h1 = Some ((None, None), h1)) \<and>
   (convertGaugeToSum stringAggTemp monotonic = (Some f, e) \<and>
    Metric_Type h (GetMetric ctx) = Some MetricTypeSum \<longrightarrow>
      f ctx h = Some ((None, None), h)) \<and>
   (DeleteKey target key = (Some d, e') \<and>
    target c s = Some ((Some (GoMap m), None), s1) \<and>
    read_map s1 m = Some kvs \<and> key \<notin> fst ` set kvs \<longrightarrow>
      d c s = Some ((None, None), s1)) \<and>
   (DeleteKey target key = (Some d, e') \<and>
    target c s = Some ((Some (GoMap m), None), s1) \<and> read_map s1 m = Some kvs \<and>
    count_list (map fst kvs) key \<le> 1 \<and>
    d c s = Some (r', s2) \<and>
    target c s2 = Some ((Some (GoMap m), None), s2) \<longrightarrow>
      d c s2 = Some ((None, None), s2))"
proof (intro conjI impI)
  assume a: "convertGaugeToSum stringAggTemp monotonic = (Some f, e) \<and> f ctx h = Some (r, h1)"
  then obtain a' where f: "f = convertGaugeToSum_func a' monotonic"
    using convertGaugeToSum_SomeD by blast
  from a f have "convertGaugeToSum_func a' monotonic ctx h = Some (r, h1)" by simp
  from convertGaugeToSum_func_result [OF this]
  have "\<exists>t. Metric_Type h1 (GetMetric ctx) = Some t \<and> t \<noteq> MetricTypeGauge"
    by auto
  then show "f ctx h1 = Some ((None, None), h1)"
    unfolding f by (auto simp: convertGaugeToSum_func_not_gauge)
next
  assume a: "convertGaugeToSum stringAggTemp monotonic = (Some f, e) \<and>
             Metric_Type h (GetMetric ctx) = Some MetricTypeSum"
  then obtain a' where f: "f = convertGaugeToSum_func a' monotonic"
    using convertGaugeToSum_SomeD by blast
  from a show "f ctx h = Some ((None, None), h)"
    unfolding f by (simp add: convertGaugeToSum_func_not_gauge)
next
  assume a: "DeleteKey target key = (Some d, e') \<and>
             target c s = Some ((Some (GoMap m), None), s1) \<and>
             read_map s1 m = Some kvs \<and> key \<notin> fst ` set kvs"
  then have d: "d = DeleteKey_func target key"
    by (simp add: DeleteKey_def)
  from a show "d c s = Some ((None, None), s1)"
    unfolding d by (simp add: DeleteKey_func_absent)
next
  assume a: "DeleteKey target key = (Some d, e') \<and>
             target c s = Some ((Some (GoMap m), None), s1) \<and> read_map s1 m = Some kvs \<and>
             count_list (map fst kvs) key \<le> 1 \<and>
             d c s = Some (r', s2) \<and>
             target c s2 = Some ((Some (GoMap m), None), s2)"
  then have d: "d = DeleteKey_func target key"
    by (simp add: DeleteKey_def)
  from a d show "d c s2 = Some ((None, None), s2)"
    using DeleteKey_func_twice [of target c s m s1 kvs key r' s2] by simp
qed

theorem built_ins_idempotent_witness:
  "convertGaugeToSum ''cumulative'' True
     = (Some (convertGaugeToSum_func AggregationTemporalityCumulative True), None) \<and>
   convertGaugeToSum_func AggregationTemporalityCumulative True gauge_ctx sample_store
     = Some ((None, None),
         snd (the (convertGaugeToSum_func AggregationTemporalityCumulative True
                     gauge_ctx sample_store))) \<and>
   convertGaugeToSum_func AggregationTemporalityCumulative True gauge_ctx
       (snd (the (convertGaugeToSum_func AggregationTemporalityCumulative True
                    gauge_ctx sample_store)))
     = Some ((None, None),
         snd (the (convertGaugeToSum_func AggregationTemporalityCumulative True
                     gauge_ctx sample_store))) \<and>
   Metric_Type sample_store (GetMetric sum_ctx) = Some MetricTypeSum \<and>
   convertGaugeToSum_func AggregationTemporalityCumulative True sum_ctx sample_store
     = Some ((None, None), sample_store) \<and>
   DeleteKey attributes_target ''absent''
     = (Some (DeleteKey_func attributes_target ''absent''), None) \<and>
   attributes_target gauge_ctx sample_store
     = Some ((Some (GoMap (PointAttributes 0)), None), sample_store) \<and>
   read_map sample_store (PointAttributes 0)
     = Some [(''k'', ValueStr ''v''), (''host'', ValueStr ''a'')] \<and>
   ''absent'' \<notin> fst ` set [(''k'', ValueStr ''v''), (''host'', ValueStr ''a'')] \<and>
   DeleteKey_func attributes_target ''absent'' gauge_ctx sample_store
     = Some ((None, None), sample_store) \<and>
   DeleteKey attributes_target ''k'' = (Some (DeleteKey_func attributes_target ''k''), None) \<and>
   count_list (map fst [(''k'', ValueStr ''v''), (''host'', ValueStr ''a'')]) ''k'' \<le> 1 \<and>
   DeleteKey_func attributes_target ''k'' gauge_ctx sample_store
     = Some ((None, None),
         write_map (PointAttributes 0) [(''host'', ValueStr ''a'')] sample_store) \<and>
   attributes_target gauge_ctx
       (write_map (PointAttributes 0) [(''host'', ValueStr ''a'')] sample_store)
     = Some ((Some (GoMap (PointAttributes 0)), None),
         write_map (PointAttributes 0) [(''host'', ValueStr ''a'')] sample_store) \<and>
   DeleteKey_func attributes_target ''k'' gauge_ctx
       (write_map (PointAttributes 0) [(''host'', ValueStr ''a'')] sample_store)
     = Some ((None, None),
         write_map (PointAttributes 0) [(''host'', ValueStr ''a'')] sample_store)"
proof -
  let ?F = "convertGaugeToSum_func AggregationTemporalityCumulative True"
  let ?H1 = "snd (the (?F gauge_ctx sample_store))"
  let ?kvs = "[(''k'', ValueStr ''v''), (''host'', ValueStr ''a'')]"
  let ?S2 = "write_map (PointAttributes 0) [(''host'', ValueStr ''a'')] sample_store"
  have bind: "convertGaugeToSum ''cumulative'' True = (Some ?F, None)"
    by (simp add: convertGaugeToSum_def)
  have "\<exists>h'. ?F gauge_ctx sample_store = Some ((None, None), h')"
    using convertGaugeToSum_func_gauge [OF sample_metric _ sample_gauge sample_points]
    by simp
  then have run: "?F gauge_ctx sample_store = Some ((None, None), ?H1)"
    by auto
  have ty: "Metric_Type sample_store (GetMetric sum_ctx) = Some MetricTypeSum"
    by (simp add: Metric_Type_def sample_store_def sum_ctx_def GetMetric_def lookup_def)
  have tgt: "attributes_target gauge_ctx sample_store
               = Some ((Some (GoMap (PointAttributes 0)), None), sample_store)"
    by (simp add: attributes_target_def gauge_ctx_def)
  have rd: "read_map sample_store (PointAttributes 0) = Some ?kvs"
    by (simp add: sample_store_def sample_point_def lookup_def)
  have absent: "''absent'' \<notin> fst ` set ?kvs"
    by simp
  have cntA: "count_list (map fst ?kvs) ''absent'' \<le> 1"
    and cntK: "count_list (map fst ?kvs) ''k'' \<le> 1"
    by simp_all
  have bindA: "DeleteKey attributes_target ''absent''
                 = (Some (DeleteKey_func attributes_target ''absent''), None)"
    and bindK: "DeleteKey attributes_target ''k''
                 = (Some (DeleteKey_func attributes_target ''k''), None)"
    by (simp_all add: DeleteKey_def)
  have idx: "key_index ''k'' ?kvs = Some 0"
    by simp
  have "DeleteKey_func attributes_target ''k'' gauge_ctx sample_store
          = Some ((None, None),
              write_map (PointAttributes 0) (butlast (?kvs[0 := last ?kvs])) sample_store)"
    using tgt rd idx by (rule DeleteKey_func_present)
  then have first: "DeleteKey_func attributes_target ''k'' gauge_ctx sample_store
                      = Some ((None, None), ?S2)"
    by simp
  have tgt2: "attributes_target gauge_ctx ?S2
                = Some ((Some (GoMap (PointAttributes 0)), None), ?S2)"
    by (simp add: attributes_target_def gauge_ctx_def)
  note A = built_ins_idempotent
    [where stringAggTemp = "''cumulative''" and monotonic = True and f = ?F and e = None
       and ctx = gauge_ctx and h = sample_store and r = "(None, None)" and ?h1.0 = ?H1
       and target = attributes_target and key = "''k''"
       and d = "DeleteKey_func attributes_target ''k''" and e' = None
       and c = gauge_ctx and s = sample_store and m = "PointAttributes 0"
       and ?s1.0 = sample_store and kvs = ?kvs and r' = "(None, None)" and ?s2.0 = ?S2]
  note B = built_ins_idempotent
    [where stringAggTemp = "''cumulative''" and monotonic = True and f = ?F and e = None
       and ctx = sum_ctx and h = sample_store and r = "(None, None)" and ?h1.0 = sample_store
       and target = attributes_target and key = "''absent''"
       and d = "DeleteKey_func attributes_target ''absent''" and e' = None
       and c = gauge_ctx and s = sample_store and m = "PointAttributes 0"
       and ?s1.0 = sample_store and kvs = ?kvs and r' = "(None, None)"
       and ?s2.0 = sample_store]
  have c1: "?F gauge_ctx ?H1 = Some ((None, None), ?H1)"
    using A [THEN conjunct1] bind run by (elim impE) (intro conjI, assumption+)
  have c2: "?F sum_ctx sample_store = Some ((None, None), sample_store)"
    using B [THEN conjunct2, THEN conjunct1] bind ty by (elim impE) (intro conjI, assumption+)
  have c3: "DeleteKey_func attributes_target ''absent'' gauge_ctx sample_store
              = Some ((None, None), sample_store)"
    using B [THEN conjunct2, THEN conjunct2, THEN conjunct1] bindA tgt rd absent
    by (elim impE) (intro conjI, assumption+)
  have c4: "DeleteKey_func attributes_target ''k'' gauge_ctx ?S2 = Some ((None, None), ?S2)"
    using A [THEN conjunct2, THEN conjunct2, THEN conjunct2] bindK tgt rd cntK first tgt2
    by (elim impE) (intro conjI, assumption+)
  show ?thesis
    using bind run c1 ty c2 bindA tgt rd absent c3 bindK cntK first tgt2 c4 by (intro conjI)
qed

text \<open>
  On a map that holds the key twice, the second run removes the second entry: running
  once and running twice end in different stores.
\<close>

theorem DeleteKey_twice_counterexample:
  "attributes_target gauge_ctx duplicate_store
     = Some ((Some (GoMap (PointAttributes 0)), None), duplicate_store) \<and>
   DeleteKey_func attributes_target ''k'' gauge_ctx duplicate_store
     = Some ((None, None),
         write_map (PointAttributes 0)
           [(''host'', ValueStr ''a''), (''k'', ValueStr ''v2'')] duplicate_store) \<and>
   attributes_target gauge_ctx
       (write_map (PointAttributes 0)
          [(''host'', ValueStr ''a''), (''k'', ValueStr ''v2'')] duplicate_store)
     = Some ((Some (GoMap (PointAttributes 0)), None),
         write_map (PointAttributes 0)
           [(''host'', ValueStr ''a''), (''k'', ValueStr ''v2'')] duplicate_store) \<and>
   DeleteKey_func attributes_target ''k'' gauge_ctx
       (write_map (PointAttributes 0)
          [(''host'', ValueStr ''a''), (''k'', ValueStr ''v2'')] duplicate_store)
     = Some ((None, None),
         write_map (PointAttributes 0) [(''host'', ValueStr ''a'')] duplicate_store) \<and>
   write_map (PointAttributes 0) [(''host'', ValueStr ''a'')] duplicate_store
     \<noteq> write_map (PointAttributes 0)
         [(''host'', ValueStr ''a''), (''k'', ValueStr ''v2'')] duplicate_store"
proof -
  let ?S1 = "write_map (PointAttributes 0)
               [(''host'', ValueStr ''a''), (''k'', ValueStr ''v2'')] duplicate_store"
  let ?S2 = "write_map (PointAttributes 0) [(''host'', ValueStr ''a'')] duplicate_store"
  have once: "DeleteKey_func attributes_target ''k'' gauge_ctx duplicate_store
                = Some ((None, None), ?S1)"
    by (rule duplicate_once)
  have tgt: "attributes_target gauge_ctx ?S1 = Some ((Some (GoMap (PointAttributes 0)), None), ?S1)"
    by (simp add: attributes_target_def gauge_ctx_def)
  have rd1: "read_map ?S1 (PointAttributes 0)
               = Some [(''host'', ValueStr ''a''), (''k'', ValueStr ''v2'')]"
    using duplicate_read by (rule read_write_map)
  have rd2: "read_map ?S2 (PointAttributes 0) = Some [(''host'', ValueStr ''a'')]"
    using duplicate_read by (rule read_write_map)
  have idx: "key_index ''k'' [(''host'', ValueStr ''a''), (''k'', ValueStr ''v2'')] = Some 1"
    by simp
  have "DeleteKey_func attributes_target ''k'' gauge_ctx ?S1
          = Some ((None, None),
              write_map (PointAttributes 0)
                (butlast ([(''host'', ValueStr ''a''), (''k'', ValueStr ''v2'')]
                  [1 := last [(''host'', ValueStr ''a''), (''k'', ValueStr ''v2'')]])) ?S1)"
    using tgt rd1 idx by (rule DeleteKey_func_present)
  also have "\<dots> = Some ((None, None), ?S2)"
    by (simp add: duplicate_store_def)
  finally have twice: "DeleteKey_func attributes_target ''k'' gauge_ctx ?S1
                         = Some ((None, None), ?S2)" .
  have differ: "?S2 \<noteq> ?S1"
  proof
    assume "?S2 = ?S1"
    then have "read_map ?S2 (PointAttributes 0) = read_map ?S1 (PointAttributes 0)"
      by (rule arg_cong)
    then have "Some [(''host'', ValueStr ''a'')]
                 = Some [(''host'', ValueStr ''a''), (''k'', ValueStr ''v2'')]"
      unfolding rd1 rd2 .
    then show False by simp
  qed
  show ?thesis
    using duplicate_target once tgt twice differ by (intro conjI)
qed

text \<open>
  Claim C8. On a gauge metric, the function built by \<^verbatim>\<open>convertGaugeToSum\<close> returns nil
  and a nil error and changes only the metric's data: its name, description and unit
  stay, every other metric stays, resources, scopes, metric slices, gauges and maps
  stay, and every sum and data point that existed before stays as it was. The context
  itself is passed by value and holds only references, so what it refers to is covered
  by the store.
\<close>

theorem convertGaugeToSum_frame:
  assumes "convertGaugeToSum stringAggTemp monotonic = (Some f, e)"
    and "lookup (metrics_h h) (GetMetric ctx) = Some orig"
    and "m_Data orig = DataGauge g"
    and "lookup (gauges_h h) g = Some gauge"
    and "\<forall>p \<in> set (g_DataPoints gauge). p < length (points_h h)"
  shows "\<exists>h' orig'.
           f ctx h = Some ((None, None), h') \<and>
           lookup (metrics_h h') (GetMetric ctx) = Some orig' \<and>
           m_Name orig' = m_Name orig \<and>
           m_Description orig' = m_Description orig \<and>
           m_Unit orig' = m_Unit orig \<and>
           length (metrics_h h') = length (metrics_h h) \<and>
           (\<forall>m'. m' \<noteq> GetMetric ctx \<longrightarrow> lookup (metrics_h h') m' = lookup (metrics_h h) m') \<and>
           resources_h h' = resources_h h \<and>
           scopes_h h' = scopes_h h \<and>
           metric_slices_h h' = metric_slices_h h \<and>
           gauges_h h' = gauges_h h \<and>
           maps_h h' = maps_h h \<and>
           (\<forall>s. s < length (sums_h h) \<longrightarrow> lookup (sums_h h') s = lookup (sums_h h) s) \<and>
           (\<forall>p. p < length (points_h h) \<longrightarrow> lookup (points_h h') p = lookup (points_h h) p)"
proof -
  from convertGaugeToSum_SomeD [OF assms(1)] obtain a where
    f: "f = convertGaugeToSum_func a monotonic" by blast
  let ?m = "GetMetric ctx"
  let ?orig' = "orig\<lparr>m_Data := DataSum (length (sums_h h))\<rparr>"
  let ?h' = "h\<lparr>metrics_h := (metrics_h h)[?m := ?orig'],
               sums_h := sums_h h @
                 [\<lparr>s_AggregationTemporality = a, s_IsMonotonic = monotonic,
                   s_DataPoints = [length (points_h h) ..<
                                   length (points_h h) + length (g_DataPoints gauge)]\<rparr>],
               points_h := points_h h @ map (\<lambda>p. points_h h ! p) (g_DataPoints gauge)\<rparr>"
  have run: "f ctx h = Some ((None, None), ?h')"
    unfolding f using assms(2-5) by (rule convertGaugeToSum_func_gauge)
  have mlt: "?m < length (metrics_h h)"
    using assms(2) by (simp add: lookup_Some_iff)
  have m': "lookup (metrics_h ?h') ?m = Some ?orig'"
    using mlt by (simp add: lookup_def)
  have others: "\<forall>m'. m' \<noteq> ?m \<longrightarrow> lookup (metrics_h ?h') m' = lookup (metrics_h h) m'"
    by (simp add: lookup_def)
  have sums: "\<forall>s. s < length (sums_h h) \<longrightarrow> lookup (sums_h ?h') s = lookup (sums_h h) s"
    by (simp add: lookup_def nth_append)
  have pts: "\<forall>p. p < length (points_h h) \<longrightarrow> lookup (points_h ?h') p = lookup (points_h h) p"
    by (simp add: lookup_def nth_append)
  have fields: "m_Name ?orig' = m_Name orig" "m_Description ?orig' = m_Description orig"
    "m_Unit ?orig' = m_Unit orig"
    by simp_all
  have rest: "length (metrics_h ?h') = length (metrics_h h)" "resources_h ?h' = resources_h h"
    "scopes_h ?h' = scopes_h h" "metric_slices_h ?h' = metric_slices_h h"
    "gauges_h ?h' = gauges_h h" "maps_h ?h' = maps_h h"
    by simp_all
  show ?thesis
    using run m' fields rest others sums pts by blast
qed

theorem convertGaugeToSum_frame_witness:
  "convertGaugeToSum ''delta'' False
     = (Some (convertGaugeToSum_func AggregationTemporalityDelta False), None) \<and>
   lookup (metrics_h sample_store) (GetMetric gauge_ctx)
     = Some \<lparr>m_Name = ''load'', m_Description = ''system load'', m_Unit = ''1'',
             m_Data = DataGauge 0\<rparr> \<and>
   lookup (gauges_h sample_store) 0 = Some \<lparr>g_DataPoints = [0, 1]\<rparr> \<and>
   0 < length (points_h sample_store) \<and> 1 < length (points_h sample_store) \<and>
   (\<exists>h' orig'.
      convertGaugeToSum_func AggregationTemporalityDelta False gauge_ctx sample_store
        = Some ((None, None), h') \<and>
      lookup (metrics_h h') (GetMetric gauge_ctx) = Some orig' \<and>
      m_Name orig' = ''load'' \<and>
      m_Description orig' = ''system load'' \<and>
      m_Unit orig' = ''1'' \<and>
      length (metrics_h h') = length (metrics_h sample_store) \<and>
      (\<forall>m'. m' \<noteq> GetMetric gauge_ctx \<longrightarrow>
         lookup (metrics_h h') m' = lookup (metrics_h sample_store) m') \<and>
      resources_h h' = resources_h sample_store \<and>
      scopes_h h' = scopes_h sample_store \<and>
      metric_slices_h h' = metric_slices_h sample_store \<and>
      gauges_h h' = gauges_h sample_store \<and>
      maps_h h' = maps_h sample_store \<and>
      (\<forall>s. s < length (sums_h sample_store) \<longrightarrow>
         lookup (sums_h h') s = lookup (sums_h sample_store) s) \<and>
      (\<forall>p. p < length (points_h sample_store) \<longrightarrow>
         lookup (points_h h') p = lookup (points_h sample_store) p))"
proof -
  have bind: "convertGaugeToSum ''delta'' False
     = (Some (convertGaugeToSum_func AggregationTemporalityDelta False), None)"
    by (simp add: convertGaugeToSum_def)
  show ?thesis
    using bind sample_metric sample_gauge sample_points
      convertGaugeToSum_frame
        [where stringAggTemp = "''delta''" and monotonic = False and e = None
           and f = "convertGaugeToSum_func AggregationTemporalityDelta False"
           and h = sample_store and ctx = gauge_ctx and g = 0
           and gauge = "\<lparr>g_DataPoints = [0, 1]\<rparr>"
           and orig = "\<lparr>m_Name = ''load'', m_Description = ''system load'', m_Unit = ''1'',
                         m_Data = DataGauge 0\<rparr>"]
    by simp
qed

end
